theory Spec2Isabelle
  imports Complex_Main
begin

unbundle bit_operations_syntax

section \<open>Reggie Next: spritelib.py\<close>

text \<open>
  A shallow embedding of the parts of \<^verbatim>\<open>spritelib.py\<close> that the specification talks
  about: the Spritebox and SpriteImage geometry properties, the track auxiliary item, the
  rect-following auxiliary image, zone re-parenting, the nearest-zone lookup, the tile
  table and the image cache.

  Python numbers are modelled as exact rationals (\<^typ>\<open>rat\<close>): the constants of the
  source (\<^verbatim>\<open>1.5\<close>, \<^verbatim>\<open>0.75\<close>) are dyadic, so on the concrete inputs used below the
  floating-point results are the exact ones. Rounding and overflow of IEEE doubles are
  outside the model. Exceptions are values of \<open>py_error\<close>.
\<close>

subsection \<open>Values shared by the module\<close>

datatype py_error = ZeroDivisionError | KeyError | AttributeError | ValueError | RuntimeError

text \<open>
  \<^verbatim>\<open>QtCore.QRectF(x, y, w, h)\<close>: a value with four components.
\<close>

datatype QRectF = QRectF (rect_x: rat) (rect_y: rat) (rect_width: rat) (rect_height: rat)

subsection \<open>class Spritebox\<close>

record Spritebox =
  sb_shown :: bool
  sb_xOffset :: rat
  sb_yOffset :: rat
  sb_width :: rat
  sb_height :: rat
  sb_scale :: rat

text \<open>\<^verbatim>\<open>Spritebox.__init__(self, scale=1.5)\<close>\<close>

definition Spritebox_init :: "rat \<Rightarrow> Spritebox" where
  "Spritebox_init scale =
     \<lparr>sb_shown = True, sb_xOffset = 0, sb_yOffset = 0, sb_width = 16, sb_height = 16,
      sb_scale = scale\<rparr>"

text \<open>
  The \<^verbatim>\<open>dimensions\<close> property. The argument of the setter is the 4-tuple the callers
  pass; the setter reads its components 0 to 3.
\<close>

definition Spritebox_getDimensions :: "Spritebox \<Rightarrow> rat \<times> rat \<times> rat \<times> rat" where
  "Spritebox_getDimensions self = (sb_xOffset self, sb_yOffset self, sb_width self, sb_height self)"

fun Spritebox_setDimensions :: "Spritebox \<Rightarrow> rat \<times> rat \<times> rat \<times> rat \<Rightarrow> Spritebox" where
  "Spritebox_setDimensions self (new0, new1, new2, new3) =
     self\<lparr>sb_xOffset := new0, sb_yOffset := new1, sb_width := new2, sb_height := new3\<rparr>"

definition Spritebox_delDimensions :: "Spritebox \<Rightarrow> Spritebox" where
  "Spritebox_delDimensions self =
     self\<lparr>sb_xOffset := 0, sb_yOffset := 0, sb_width := 16, sb_height := 16\<rparr>"

text \<open>The \<^verbatim>\<open>RoundedRect\<close> property: \<^verbatim>\<open>getRR\<close>, \<^verbatim>\<open>setRR\<close>.\<close>

definition getRR :: "Spritebox \<Rightarrow> QRectF" where
  "getRR self =
     QRectF ((sb_xOffset self * sb_scale self) + 1)
            ((sb_yOffset self * sb_scale self) + 1)
            ((sb_width self * sb_scale self) - 2)
            ((sb_height self * sb_scale self) - 2)"

text \<open>
  \<^verbatim>\<open>new.x() / self.scale\<close> raises \<^verbatim>\<open>ZeroDivisionError\<close> when the scale is zero; the
  tuple is built before the assignment to \<^verbatim>\<open>self.dimensions\<close>, so nothing is stored then.
\<close>

definition setRR :: "Spritebox \<Rightarrow> QRectF \<Rightarrow> py_error + Spritebox" where
  "setRR self new =
     (if sb_scale self = 0 then Inl ZeroDivisionError
      else Inr (Spritebox_setDimensions self
                  ((rect_x new / sb_scale self) - 1,
                   (rect_y new / sb_scale self) - 1,
                   (rect_width new / sb_scale self) + 2,
                   (rect_height new / sb_scale self) + 2)))"

text \<open>The \<^verbatim>\<open>BoundingRect\<close> property: \<^verbatim>\<open>getBR\<close>, \<^verbatim>\<open>setBR\<close>.\<close>

definition getBR :: "Spritebox \<Rightarrow> QRectF" where
  "getBR self =
     QRectF (sb_xOffset self * sb_scale self)
            (sb_yOffset self * sb_scale self)
            (sb_width self * sb_scale self)
            (sb_height self * sb_scale self)"

definition setBR :: "Spritebox \<Rightarrow> QRectF \<Rightarrow> py_error + Spritebox" where
  "setBR self new =
     Inr (Spritebox_setDimensions self
            (rect_x new * sb_scale self,
             rect_y new * sb_scale self,
             rect_width new * sb_scale self,
             rect_height new * sb_scale self))"

subsection \<open>Images\<close>

text \<open>
  A bitmap object. \<^verbatim>\<open>QtGui.QPixmap(path)\<close> and \<^verbatim>\<open>QtGui.QImage(path)\<close> create a new
  object on every call: the second component is the serial number of the load, so two
  loads of the same file are different values, as they are different objects in Python.
  \<open>Copy\<close> is the result of \<^verbatim>\<open>img.copy(x, y, w, h)\<close>.
\<close>

datatype bitmap =
    QPixmap string nat
  | QImage string nat
  | Copy bitmap rat rat rat rat

subsection \<open>class SpriteImage\<close>

record SpriteImage =
  si_alpha :: rat
  si_image :: "bitmap option"
  si_spritebox :: Spritebox
  si_xOffset :: rat
  si_yOffset :: rat
  si_width :: rat
  si_height :: rat
  si_scale :: rat
  si_aux :: "nat list"

definition SpriteImage_getDimensions :: "SpriteImage \<Rightarrow> rat \<times> rat \<times> rat \<times> rat" where
  "SpriteImage_getDimensions self = (si_xOffset self, si_yOffset self, si_width self, si_height self)"

fun SpriteImage_setDimensions :: "SpriteImage \<Rightarrow> rat \<times> rat \<times> rat \<times> rat \<Rightarrow> SpriteImage" where
  "SpriteImage_setDimensions self (new0, new1, new2, new3) =
     self\<lparr>si_xOffset := new0, si_yOffset := new1, si_width := new2, si_height := new3\<rparr>"

text \<open>
  \<^verbatim>\<open>SpriteImage.__init__(self, parent, scale=1.5)\<close>; the fields of the geometry come
  into being with the assignment \<^verbatim>\<open>self.dimensions = 0, 0, 16, 16\<close>. The parent link is
  not used by any function modelled here and is left out.
\<close>

definition SpriteImage_init :: "rat \<Rightarrow> SpriteImage" where
  "SpriteImage_init scale =
     \<lparr>si_alpha = 1, si_image = None, si_spritebox = Spritebox_init scale,
      si_xOffset = 0, si_yOffset = 0, si_width = 16, si_height = 16,
      si_scale = scale, si_aux = []\<rparr>"

subsection \<open>Module globals and the world around them\<close>

datatype QColor = QColor nat nat nat nat

datatype QPen = QPen "QColor option" rat

datatype QBrush = QBrush "QColor option"

text \<open>A tile object of the tile table; \<^verbatim>\<open>GetTile\<close> reads its attribute \<^verbatim>\<open>main\<close>.\<close>

datatype Tile = Tile (tile_main: bitmap)

text \<open>
  The module's global variables, as \<^verbatim>\<open>spritelib.py\<close> declares them, followed by the
  three pieces of the world that \<^verbatim>\<open>GetImg\<close> touches: the regular files that exist
  (\<^verbatim>\<open>os.path.isfile\<close>), what was printed, and how many bitmaps were loaded from disk.
  \<open>Area_zones\<close> is the attribute \<^verbatim>\<open>Area.zones\<close>, a list of references to zone objects;
  it is \<open>None\<close> when \<^verbatim>\<open>Area\<close> has no such attribute (\<^verbatim>\<open>Area\<close> is \<^verbatim>\<open>None\<close> at start).
  In \<open>ImageCache\<close> and \<open>Tiles\<close> the outer \<open>option\<close> says whether the key is in the
  dictionary and the inner one whether the stored value is \<^verbatim>\<open>None\<close>.
\<close>

record Module =
  OutlineColor :: "QColor option"
  OutlinePen :: "QPen option"
  OutlineBrush :: "QBrush option"
  ImageCache :: "string \<rightharpoonup> bitmap option"
  Tiles :: "int \<rightharpoonup> Tile option"
  SpriteImagesLoaded :: "string set"
  SpritesFolders :: "string list"
  RealViewEnabled :: bool
  Area_zones :: "nat list option"
  files :: "string set"
  stdout :: "string list"
  loads :: nat

text \<open>The state of the module when it has just been imported, in a given file system.\<close>

definition module_imported :: "string set \<Rightarrow> Module" where
  "module_imported fs =
     \<lparr>OutlineColor = None, OutlinePen = None, OutlineBrush = None,
      ImageCache = Map.empty, Tiles = Map.empty, SpriteImagesLoaded = {},
      SpritesFolders = [], RealViewEnabled = False, Area_zones = None,
      files = fs, stdout = [], loads = 0\<rparr>"

text \<open>\<^verbatim>\<open>main()\<close>: the loop \<^verbatim>\<open>for i in range(256): Tiles[i] = None\<close> is the fold.\<close>

definition main :: "Module \<Rightarrow> Module" where
  "main m =
     m\<lparr>OutlinePen := Some (QPen (OutlineColor m) 4),
       OutlineBrush := Some (QBrush (OutlineColor m)),
       Tiles := fold (\<lambda>i T. T(int i \<mapsto> None)) [0..<256] (Tiles m),
       ImageCache := Map.empty,
       SpriteImagesLoaded := {},
       SpritesFolders := []\<rparr>"

subsection \<open>GetImg, GetTile, loadIfNotInImageCache\<close>

text \<open>
  \<^verbatim>\<open>os.path.join\<close> on a POSIX system, one component at a time: a component that
  starts with the separator replaces the path; otherwise it is appended, with a separator
  unless the path is empty or already ends with one.
\<close>

definition path_join :: "string \<Rightarrow> string \<Rightarrow> string" where
  "path_join path b =
     (if b \<noteq> [] \<and> hd b = CHR ''/'' then b
      else if path = [] \<or> last path = CHR ''/'' then path @ b
      else path @ ''/'' @ b)"

text \<open>
  The loop \<^verbatim>\<open>for folder in reversed(SpritesFolders)\<close> of \<^verbatim>\<open>GetImg\<close>, run on the
  reversed list: the first folder that holds the file wins, and \<open>path\<close> is kept when
  none does.
\<close>

fun find_path :: "string set \<Rightarrow> string list \<Rightarrow> string \<Rightarrow> string \<Rightarrow> string" where
  "find_path fs [] imgname path = path"
| "find_path fs (folder # folders) imgname path =
     (let tryPath = path_join folder imgname
      in if tryPath \<in> fs then tryPath else find_path fs folders imgname path)"

definition warning_text :: "string \<Rightarrow> string" where
  "warning_text imgname = ''[Warning] Could not load sprite image ('' @ imgname @ '')!''"

text \<open>
  \<^verbatim>\<open>GetImg(imgname, image=False)\<close> returns the bitmap, or \<open>None\<close> (the function falls
  off its end after the \<^verbatim>\<open>print\<close>), together with the module state afterwards;
  \<open>image_flag\<close> is the parameter \<^verbatim>\<open>image\<close>.
\<close>

definition GetImg :: "Module \<Rightarrow> string \<Rightarrow> bool \<Rightarrow> bitmap option \<times> Module" where
  "GetImg m imgname image_flag =
     (let path = path_join (path_join ''reggiedata'' ''sprites'') imgname;
          path = find_path (files m) (rev (SpritesFolders m)) imgname path
      in if path \<in> files m then
           (Some (if image_flag then QImage path (loads m) else QPixmap path (loads m)),
            m\<lparr>loads := Suc (loads m)\<rparr>)
         else (None, m\<lparr>stdout := stdout m @ [warning_text imgname]\<rparr>))"

text \<open>
  \<^verbatim>\<open>GetTile(tile_id)\<close>: \<^verbatim>\<open>Tiles[...]\<close> raises \<^verbatim>\<open>KeyError\<close> on a missing key and
  \<^verbatim>\<open>tile.main\<close> raises \<^verbatim>\<open>AttributeError\<close> when \<^verbatim>\<open>tile\<close> is \<^verbatim>\<open>None\<close>.
  The index of the override is \<^verbatim>\<open>4 * 0x200 + 64\<close>.
\<close>

definition unknown_tile :: int where
  "unknown_tile = 4 * 512 + 64"

definition GetTile :: "Module \<Rightarrow> int \<Rightarrow> py_error + bitmap" where
  "GetTile m tile_id =
     (case Tiles m tile_id of
        None \<Rightarrow> Inl KeyError
      | Some tile \<Rightarrow>
          (case (if tile = None then Tiles m unknown_tile else Some tile) of
             None \<Rightarrow> Inl KeyError
           | Some tile' \<Rightarrow>
               (case tile' of None \<Rightarrow> Inl AttributeError | Some t \<Rightarrow> Inr (tile_main t))))"

definition loadIfNotInImageCache :: "Module \<Rightarrow> string \<Rightarrow> string \<Rightarrow> Module" where
  "loadIfNotInImageCache m name filename =
     (if name \<notin> dom (ImageCache m) then
        (case GetImg m filename False of
           (img, m') \<Rightarrow> m'\<lparr>ImageCache := (ImageCache m')(name \<mapsto> img)\<rparr>)
      else m)"

subsection \<open>MapPositionToZoneID\<close>

text \<open>
  A zone object, with the attributes that this module reads: its id, the \<^verbatim>\<open>QRectF\<close>
  \<^verbatim>\<open>ZoneRect\<close>, its bounding rect and the set \<^verbatim>\<open>aux\<close> of the auxiliary items attached to
  it (items are named by their reference).
\<close>

record Zone =
  zone_id :: int
  ZoneRect :: QRectF
  zone_BoundingRect :: QRectF
  zone_aux :: "nat set"








subsection \<open>class AuxiliaryTrackObject\<close>

text \<open>
  What a painter was asked to do, in order. Only the calls made by the functions
  modelled here appear.
\<close>

datatype paint_cmd =
    SetClipRect QRectF
  | SetRenderHint_Antialiasing
  | SetPen "QPen option"
  | DrawLine rat rat rat rat
  | DrawEllipse rat rat rat rat

definition Horizontal :: int where
  "Horizontal = 1"

definition Vertical :: int where
  "Vertical = 2"

record AuxiliaryTrackObject =
  to_parent :: nat
  to_hover :: bool
  to_BoundingRect :: QRectF
  to_pos :: "rat \<times> rat"
  to_width :: rat
  to_height :: rat
  to_direction :: int

text \<open>
  \<^verbatim>\<open>AuxiliaryTrackObject.__init__(self, parent, width, height, direction)\<close>, after
  \<^verbatim>\<open>AuxiliarySpriteItem.__init__\<close>, which sets \<^verbatim>\<open>hover\<close> and a 24 by 24 bounding rect that
  is overwritten at once. The Qt item flags are not modelled.
\<close>

definition AuxiliaryTrackObject_init :: "nat \<Rightarrow> rat \<Rightarrow> rat \<Rightarrow> int \<Rightarrow> AuxiliaryTrackObject" where
  "AuxiliaryTrackObject_init parent width height direction =
     \<lparr>to_parent = parent, to_hover = False,
      to_BoundingRect = QRectF 0 0 (width * (3/2)) (height * (3/2)),
      to_pos = (0, 0), to_width = width, to_height = height, to_direction = direction\<rparr>"

definition AuxiliaryTrackObject_boundingRect :: "AuxiliaryTrackObject \<Rightarrow> QRectF" where
  "AuxiliaryTrackObject_boundingRect self = to_BoundingRect self"

text \<open>
  \<^verbatim>\<open>paint(self, painter, option, widget=None)\<close>: the painter is the list of the calls made
  on it so far; \<open>option\<close> is \<open>None\<close> or the \<^verbatim>\<open>exposedRect\<close> of the option object.
\<close>

definition AuxiliaryTrackObject_paint ::
  "Module \<Rightarrow> AuxiliaryTrackObject \<Rightarrow> paint_cmd list \<Rightarrow> QRectF option \<Rightarrow> paint_cmd list" where
  "AuxiliaryTrackObject_paint m self painter option =
     (let painter = (case option of
                       None \<Rightarrow> painter
                     | Some exposedRect \<Rightarrow>
                         painter @ [SetClipRect exposedRect, SetRenderHint_Antialiasing]);
          painter = painter @ [SetPen (OutlinePen m)]
      in if to_direction self = Horizontal then
           (let lineY = to_height self * (3/4)
            in painter @
               [DrawLine 20 lineY ((to_width self * (3/2)) - 20) lineY,
                DrawEllipse 8 (lineY - 4) 8 8,
                DrawEllipse ((to_width self * (3/2)) - 16) (lineY - 4) 8 8])
         else
           (let lineX = to_width self * (3/4)
            in painter @
               [DrawLine lineX 20 lineX ((to_height self * (3/2)) - 20),
                DrawEllipse (lineX - 4) 8 8 8,
                DrawEllipse (lineX - 4) ((to_height self * (3/2)) - 16) 8 8]))"

subsection \<open>class AuxiliaryImage_FollowsRect\<close>

text \<open>
  The alignment flags of Qt (\<^verbatim>\<open>Qt.AlignLeft\<close> and so on), with the values Qt gives them,
  and the test \<^verbatim>\<open>flagPresent = lambda flags, flag: flags | flag == flags\<close>.
\<close>

definition AlignLeft :: int where "AlignLeft = 1"
definition AlignRight :: int where "AlignRight = 2"
definition AlignHCenter :: int where "AlignHCenter = 4"
definition AlignTop :: int where "AlignTop = 32"
definition AlignBottom :: int where "AlignBottom = 64"
definition AlignVCenter :: int where "AlignVCenter = 128"

definition flagPresent :: "int \<Rightarrow> int \<Rightarrow> bool" where
  "flagPresent flags flag \<longleftrightarrow> (flags OR flag = flags)"

text \<open>
  The parent graphics item as \<^verbatim>\<open>move\<close> sees it: its position, or a wrapper whose C++
  object is gone, on which \<^verbatim>\<open>parent.x()\<close> raises \<^verbatim>\<open>RuntimeError\<close>.
\<close>

datatype parent_item = ParentAt rat rat | ParentDeleted

text \<open>
  The fields of the item: those of \<^verbatim>\<open>AuxiliarySpriteItem\<close>, \<^verbatim>\<open>AuxiliaryImage\<close> and
  \<^verbatim>\<open>AuxiliaryImage_FollowsRect\<close>, the position that Qt keeps (\<^verbatim>\<open>x()\<close>, \<^verbatim>\<open>y()\<close>,
  \<^verbatim>\<open>setPos\<close>), and the scene: \<open>None\<close> when \<^verbatim>\<open>self.scene()\<close> is \<^verbatim>\<open>None\<close>, otherwise the
  rectangles passed to \<^verbatim>\<open>scene().update\<close> so far.
\<close>

record AuxiliaryImage_FollowsRect =
  fr_parent :: parent_item
  fr_hover :: bool
  fr_BoundingRect :: QRectF
  fr_x :: rat
  fr_y :: rat
  fr_width :: rat
  fr_height :: rat
  fr_image :: "bitmap option"
  fr_alpha :: rat
  fr_alignment :: int
  fr_realwidth :: rat
  fr_realheight :: rat
  fr_realimage :: "bitmap option"
  fr_scene :: "QRectF list option"

text \<open>
  \<^verbatim>\<open>AuxiliaryImage_FollowsRect.__init__(self, parent, width, height)\<close> through its two
  base constructors; a new graphics item is at position (0, 0). The scene is the one the
  parent is in.
\<close>

definition AuxiliaryImage_FollowsRect_init ::
  "parent_item \<Rightarrow> QRectF list option \<Rightarrow> rat \<Rightarrow> rat \<Rightarrow> AuxiliaryImage_FollowsRect" where
  "AuxiliaryImage_FollowsRect_init parent scene width height =
     \<lparr>fr_parent = parent, fr_hover = True,
      fr_BoundingRect = QRectF 0 0 width height,
      fr_x = 0, fr_y = 0, fr_width = width, fr_height = height,
      fr_image = None, fr_alpha = 1,
      fr_alignment = AlignTop OR AlignLeft,
      fr_realwidth = width, fr_realheight = height, fr_realimage = None,
      fr_scene = scene\<rparr>"

text \<open>
  \<^verbatim>\<open>move\<close>, first part (lines 737 to 750): the width, the height and the image are
  recomputed from the real size, the retained image and the available \<open>w\<close> and \<open>h\<close>.
\<close>

definition move_resize ::
  "AuxiliaryImage_FollowsRect \<Rightarrow> rat \<Rightarrow> rat \<Rightarrow> AuxiliaryImage_FollowsRect" where
  "move_resize self w h =
     (let self = self\<lparr>fr_width := fr_realwidth self, fr_height := fr_realheight self\<rparr>;
          changedSize = False;
          (self, changedSize) =
             (if w < fr_width self then (self\<lparr>fr_width := w\<rparr>, True) else (self, changedSize));
          (self, changedSize) =
             (if h < fr_height self then (self\<lparr>fr_height := h\<rparr>, True) else (self, changedSize))
      in case fr_realimage self of
           None \<Rightarrow> self
         | Some realimage \<Rightarrow>
             (if changedSize then self\<lparr>fr_image := Some (Copy realimage 0 0 w h)\<rparr>
              else self\<lparr>fr_image := Some realimage\<rparr>))"

text \<open>
  \<^verbatim>\<open>move\<close>, second part (lines 752 to 775), on the item as the first part left it: the
  absolute position from the alignment, then the position relative to the parent;
  \<open>Inl RuntimeError\<close> when the parent is deleted.
\<close>

definition move_newpos ::
  "AuxiliaryImage_FollowsRect \<Rightarrow> rat \<Rightarrow> rat \<Rightarrow> rat \<Rightarrow> rat \<Rightarrow> py_error + rat \<times> rat" where
  "move_newpos self x y w h =
     (let newx = (if flagPresent (fr_alignment self) AlignLeft then x
                  else if flagPresent (fr_alignment self) AlignRight then x + w - fr_width self
                  else x + (w / 2) - (fr_width self / 2));
          newy = (if flagPresent (fr_alignment self) AlignTop then y
                  else if flagPresent (fr_alignment self) AlignBottom then y + h - fr_height self
                  else y + (h / 2) - (fr_height self / 2))
      in case fr_parent self of
           ParentDeleted \<Rightarrow> Inl RuntimeError
         | ParentAt px py \<Rightarrow> Inr (newx - px, newy - py))"

text \<open>
  \<^verbatim>\<open>move(self, x, y, w, h)\<close>. The \<^verbatim>\<open>RuntimeError\<close> is caught and the function returns;
  it returns as well when the new position is the old one; otherwise the position is set
  and, in a scene, the old area is passed to \<^verbatim>\<open>scene().update\<close>.
\<close>

definition move ::
  "AuxiliaryImage_FollowsRect \<Rightarrow> rat \<Rightarrow> rat \<Rightarrow> rat \<Rightarrow> rat \<Rightarrow> AuxiliaryImage_FollowsRect" where
  "move self x y w h =
     (let oldx = fr_x self; oldy = fr_y self;
          self = move_resize self w h
      in case move_newpos self x y w h of
           Inl err \<Rightarrow> self
         | Inr (newx, newy) \<Rightarrow>
             (if newx = oldx \<and> newy = oldy then self
              else
                (let self = self\<lparr>fr_x := newx, fr_y := newy\<rparr>
                 in case (fr_scene self, fr_parent self) of
                      (Some updates, ParentAt px py) \<Rightarrow>
                        self\<lparr>fr_scene :=
                          Some (updates @ [QRectF (oldx + px) (oldy + py) (fr_width self) (fr_height self)])\<rparr>
                    | _ \<Rightarrow> self)))"

text \<open>
  The new position relative to the parent that a call of \<^verbatim>\<open>move\<close> computes, for stating
  properties of \<^verbatim>\<open>move\<close>.
\<close>

definition computed_pos ::
  "AuxiliaryImage_FollowsRect \<Rightarrow> rat \<Rightarrow> rat \<Rightarrow> rat \<Rightarrow> rat \<Rightarrow> py_error + rat \<times> rat" where
  "computed_pos self x y w h = move_newpos (move_resize self w h) x y w h"

subsection \<open>class AuxiliaryZoneItem\<close>

text \<open>
  The item, with its own reference \<open>zi_ref\<close> (the element of the zones' \<^verbatim>\<open>aux\<close> sets),
  its attribute \<^verbatim>\<open>parent\<close> and the parent item that Qt keeps (\<^verbatim>\<open>setParentItem\<close>), both
  references to zone objects.
\<close>

record AuxiliaryZoneItem =
  zi_ref :: nat
  zi_parent :: "nat option"
  zi_parentItem :: "nat option"
  zi_imageObj :: "bitmap option"
  zi_hover :: bool
  zi_BoundingRect :: QRectF

text \<open>
  How a method ends: it returns or it raises, and in both cases the zone objects (a store
  from references to zones) and the item are in some state.
\<close>

datatype 'a exit = Returns 'a | Raises py_error 'a

text \<open>
  The search loop of \<^verbatim>\<open>setZoneID\<close>: \<^verbatim>\<open>z\<close> is overwritten by every zone of the list with
  the id, so the last one stays.
\<close>

definition find_zone :: "(nat \<Rightarrow> Zone) \<Rightarrow> nat list \<Rightarrow> int \<Rightarrow> nat option" where
  "find_zone store zones ident =
     fold (\<lambda>iterz z. if zone_id (store iterz) = ident then Some iterz else z) zones None"

text \<open>
  \<^verbatim>\<open>setZoneID(self, id)\<close>, with the module state for \<^verbatim>\<open>Area\<close>. \<^verbatim>\<open>set.remove\<close> raises
  \<^verbatim>\<open>KeyError\<close> when the element is not in the set.
\<close>

definition setZoneID ::
  "Module \<Rightarrow> (nat \<Rightarrow> Zone) \<Rightarrow> AuxiliaryZoneItem \<Rightarrow> int \<Rightarrow> ((nat \<Rightarrow> Zone) \<times> AuxiliaryZoneItem) exit" where
  "setZoneID m store self ident =
     (case Area_zones m of
        None \<Rightarrow> Returns (store, self)
      | Some zones \<Rightarrow>
          (case find_zone store zones ident of
             None \<Rightarrow> Raises ValueError (store, self)
           | Some z \<Rightarrow>
               (case (case zi_parent self of
                        None \<Rightarrow> Inr store
                      | Some p \<Rightarrow>
                          (if zi_ref self \<in> zone_aux (store p)
                           then Inr (store(p := (store p)\<lparr>zone_aux := zone_aux (store p) - {zi_ref self}\<rparr>))
                           else Inl KeyError)) of
                  Inl err \<Rightarrow> Raises err (store, self)
                | Inr store \<Rightarrow>
                    (let self = self\<lparr>zi_parentItem := Some z\<rparr>;
                         self = self\<lparr>zi_parent := Some z\<rparr>;
                         store = store(z := (store z)\<lparr>zone_aux := insert (zi_ref self) (zone_aux (store z))\<rparr>)
                     in Returns (store, self)))))"

subsection \<open>Concrete states\<close>

text \<open>
  A tile table after \<^verbatim>\<open>main()\<close> in which only the slot of the override holds a tile.
\<close>

definition tiles_example :: Module where
  "tiles_example =
     main ((module_imported {})\<lparr>Tiles := [unknown_tile \<mapsto> Some (Tile (QPixmap ''unknown.png'' 0))]\<rparr>)"

text \<open>
  The module after \<^verbatim>\<open>main()\<close> with two override folders registered, of which the first
  holds a copy of one image of the base folder.
\<close>

definition cache_example :: Module where
  "cache_example =
     (main (module_imported {''reggiedata/sprites/goomba.png'', ''patch/goomba.png''}))
       \<lparr>SpritesFolders := [''patch'', ''other'']\<rparr>"

text \<open>
  Two zone objects, at the references 0 and 1 (every other reference reads as the second
  one), and an auxiliary zone item attached to the first.
\<close>

definition zone_store_example :: "nat \<Rightarrow> Zone" where
  "zone_store_example r =
     (if r = 0 then \<lparr>zone_id = 1, ZoneRect = QRectF 0 0 10 10, zone_BoundingRect = QRectF 0 0 15 15, zone_aux = {5}\<rparr>
      else \<lparr>zone_id = 2, ZoneRect = QRectF 20 0 10 10, zone_BoundingRect = QRectF 0 0 15 15, zone_aux = {}\<rparr>)"

definition zone_item_example :: AuxiliaryZoneItem where
  "zone_item_example =
     \<lparr>zi_ref = 5, zi_parent = Some 0, zi_parentItem = Some 0, zi_imageObj = None, zi_hover = False,
      zi_BoundingRect = QRectF 0 0 24 24\<rparr>"



text \<open>
  A rect-following image of real size 10 by 10 with a retained image, at position (0, 0)
  in a parent at (3, 4), in a scene that has seen no update yet.
\<close>

definition follows_example :: AuxiliaryImage_FollowsRect where
  "follows_example =
     (AuxiliaryImage_FollowsRect_init (ParentAt 3 4) (Some []) 10 10)
       \<lparr>fr_image := Some (QPixmap ''reggiedata/sprites/vine.png'' 0),
        fr_realimage := Some (QPixmap ''reggiedata/sprites/vine.png'' 0)\<rparr>"

section \<open>Properties\<close>

subsection \<open>Spritebox and SpriteImage geometry\<close>

text \<open>
  C6. For a Spritebox with offset (0, 0), size (16, 16) and scale 1.5, whatever its other
  field, the RoundedRect getter yields the rect (1, 1, 22, 22) and the BoundingRect getter
  the rect (0, 0, 24, 24); the freshly constructed Spritebox of scale 1.5 is one of them.
  In general, once the dimensions are set to (x, y, w, h), the next read of RoundedRect
  is ((x*scale)+1, (y*scale)+1, (w*scale)-2, (h*scale)-2) and the next read of
  BoundingRect is (x*scale, y*scale, w*scale, h*scale): both are computed from the
  fields as they are at the access.
\<close>

theorem spritebox_rects:
  "getRR (self\<lparr>sb_xOffset := 0, sb_yOffset := 0, sb_width := 16, sb_height := 16, sb_scale := 3/2\<rparr>)
     = QRectF 1 1 22 22
   \<and> getBR (self\<lparr>sb_xOffset := 0, sb_yOffset := 0, sb_width := 16, sb_height := 16, sb_scale := 3/2\<rparr>)
     = QRectF 0 0 24 24
   \<and> getRR (Spritebox_init (3/2)) = QRectF 1 1 22 22
   \<and> getBR (Spritebox_init (3/2)) = QRectF 0 0 24 24
   \<and> getRR (Spritebox_setDimensions sb (x, y, w, h))
     = QRectF ((x * sb_scale sb) + 1) ((y * sb_scale sb) + 1) ((w * sb_scale sb) - 2) ((h * sb_scale sb) - 2)
   \<and> getBR (Spritebox_setDimensions sb (x, y, w, h))
     = QRectF (x * sb_scale sb) (y * sb_scale sb) (w * sb_scale sb) (h * sb_scale sb)"
  by (simp add: getRR_def getBR_def Spritebox_init_def)

text \<open>
  C8. For every dimensions tuple D and every Spritebox and SpriteImage, setting the
  dimensions to D and reading them back gives D.
\<close>

theorem dimensions_round_trip:
  "Spritebox_getDimensions (Spritebox_setDimensions sb D) = D
   \<and> SpriteImage_getDimensions (SpriteImage_setDimensions si D) = D"
  by (cases D) (simp add: Spritebox_getDimensions_def SpriteImage_getDimensions_def)

text \<open>
  The setter of RoundedRect divides by the scale, as long as the scale is not zero.
\<close>

lemma setRR_formula:
  "sb_scale self \<noteq> 0 \<Longrightarrow>
   setRR self (QRectF x y w h) =
     Inr (Spritebox_setDimensions self
            (x / sb_scale self - 1, y / sb_scale self - 1, w / sb_scale self + 2, h / sb_scale self + 2))"
  by (simp add: setRR_def)

text \<open>
  C2. Setting BoundingRect to R is claimed to set the dimensions to
  (R.x/scale, R.y/scale, R.w/scale, R.h/scale). The setter multiplies by the scale
  instead: on the default Spritebox of scale 1.5, setting BoundingRect to (0, 0, 24, 24),
  the rect its own getter returns, leaves the dimensions (0, 0, 36, 36) and not
  (0, 0, 16, 16).
\<close>

theorem setBR_multiplies_by_scale:
  "(case setBR (Spritebox_init (3/2)) (QRectF 0 0 24 24) of
      Inl err \<Rightarrow> False
    | Inr sb \<Rightarrow> Spritebox_getDimensions sb = (0, 0, 36, 36)
               \<and> Spritebox_getDimensions sb \<noteq> (0 / (3/2), 0 / (3/2), 24 / (3/2), 24 / (3/2)))"
  by (simp add: setBR_def Spritebox_init_def Spritebox_getDimensions_def)

subsection \<open>The track\<close>

text \<open>
  C1, as the code has it. For an AuxiliaryTrackObject constructed with
  direction Horizontal, width 100 and height 16, the bounding rectangle is (0, 0, 150, 24)
  and paint, after the optional clipping and the pen, draws the line at
  y = 16 * 0.75 = 12 from x = 20 to x = 130 and two ellipses in the 8 by 8 boxes at
  (8, 8) and (134, 8), that is, circles of diameter 8 centred at (12, 12) and (138, 12),
  12 units from either end of the bounding rectangle.
\<close>

theorem track_paint:
  "AuxiliaryTrackObject_boundingRect (AuxiliaryTrackObject_init parent 100 16 Horizontal) = QRectF 0 0 150 24
   \<and> AuxiliaryTrackObject_paint m (AuxiliaryTrackObject_init parent 100 16 Horizontal) painter option =
       painter
       @ (case option of None \<Rightarrow> [] | Some exposedRect \<Rightarrow> [SetClipRect exposedRect, SetRenderHint_Antialiasing])
       @ [SetPen (OutlinePen m), DrawLine 20 12 130 12, DrawEllipse 8 8 8 8, DrawEllipse 134 8 8 8]"
  by (simp add: AuxiliaryTrackObject_boundingRect_def AuxiliaryTrackObject_init_def
      AuxiliaryTrackObject_paint_def split: option.split)

text \<open>
  C1, as stated, fails: no line at y = 18 is drawn for width 100 and height 16.
\<close>

theorem track_line_not_at_18:
  "DrawLine 20 18 130 18 \<notin> set (AuxiliaryTrackObject_paint (module_imported {})
      (AuxiliaryTrackObject_init 0 100 16 Horizontal) [] None)"
  by (simp add: AuxiliaryTrackObject_init_def AuxiliaryTrackObject_paint_def)

subsection \<open>The tile table\<close>

lemma fold_clear_tiles:
  "fold (\<lambda>i T. T(int i \<mapsto> None)) ns T k = (if k \<in> int ` set ns then Some None else T k)"
  by (induction ns arbitrary: T) auto

lemma main_Tiles:
  "Tiles (main m) k = (if 0 \<le> k \<and> k < 256 then Some None else Tiles m k)"
proof -
  have "k \<in> int ` set [0..<256] \<longleftrightarrow> 0 \<le> k \<and> k < 256"
  proof
    assume "k \<in> int ` set [0..<256]"
    then show "0 \<le> k \<and> k < 256" by auto
  next
    assume "0 \<le> k \<and> k < 256"
    then have "nat k \<in> set [0..<256]" and "int (nat k) = k" by auto
    then show "k \<in> int ` set [0..<256]" by (metis imageI)
  qed
  then show ?thesis by (simp add: main_def fold_clear_tiles)
qed

lemma GetTile_empty_slot:
  "Tiles m tile_id = Some None \<Longrightarrow> GetTile m tile_id = GetTile m unknown_tile"
  by (auto simp: GetTile_def split: option.splits)

text \<open>
  C4. For every tile id whose slot holds no loaded tile, \<^verbatim>\<open>GetTile(id)\<close> ends as
  \<^verbatim>\<open>GetTile\<close> of the slot of the override, \<^verbatim>\<open>4 * 0x200 + 64\<close>, does: with the image of the
  tile in that slot when there is one, and with the same exception when that slot is
  missing or empty. After \<^verbatim>\<open>main()\<close> every id from 0 to 255 is such a slot, and \<^verbatim>\<open>main()\<close>
  leaves the slot of the override as it was.
\<close>

theorem GetTile_fallback:
  "(Tiles m tile_id = Some None \<longrightarrow>
      GetTile m tile_id = GetTile m unknown_tile
      \<and> (\<forall>t. Tiles m unknown_tile = Some (Some t) \<longrightarrow> GetTile m tile_id = Inr (tile_main t)))
   \<and> (0 \<le> tile_id \<and> tile_id < 256 \<longrightarrow>
      Tiles (main m) tile_id = Some None
      \<and> GetTile (main m) tile_id = GetTile (main m) unknown_tile
      \<and> Tiles (main m) unknown_tile = Tiles m unknown_tile)"
proof -
  have a: "GetTile m tile_id = Inr (tile_main t)"
    if "Tiles m tile_id = Some None" "Tiles m unknown_tile = Some (Some t)" for t
    using that by (simp add: GetTile_def)
  have b: "Tiles (main m) tile_id = Some None" if "0 \<le> tile_id \<and> tile_id < 256"
    using that by (simp add: main_Tiles)
  have c: "Tiles (main m) unknown_tile = Tiles m unknown_tile"
    by (simp add: main_Tiles unknown_tile_def)
  show ?thesis using a b c GetTile_empty_slot by blast
qed

text \<open>An empty slot of a table whose override slot is loaded.\<close>

theorem GetTile_fallback_witness:
  "Tiles tiles_example 7 = Some None
   \<and> GetTile tiles_example 7 = GetTile tiles_example unknown_tile
   \<and> GetTile tiles_example 7 = Inr (QPixmap ''unknown.png'' 0)"
proof -
  have u: "Tiles tiles_example unknown_tile = Some (Some (Tile (QPixmap ''unknown.png'' 0)))"
    by (simp add: tiles_example_def main_Tiles module_imported_def unknown_tile_def)
  have e: "Tiles tiles_example 7 = Some None"
    by (simp add: tiles_example_def main_Tiles)
  from GetTile_fallback [of tiles_example 7] e
  have "GetTile tiles_example 7 = GetTile tiles_example unknown_tile"
    and "\<forall>t. Tiles tiles_example unknown_tile = Some (Some t) \<longrightarrow> GetTile tiles_example 7 = Inr (tile_main t)"
    by blast+
  with u e show ?thesis by simp
qed

subsection \<open>The image cache\<close>

lemma loadIfNotInImageCache_present:
  "name \<in> dom (ImageCache m) \<Longrightarrow> loadIfNotInImageCache m name filename = m"
  by (simp add: loadIfNotInImageCache_def)

lemma GetImg_cache: "ImageCache (snd (GetImg m filename flag)) = ImageCache m"
  by (simp add: GetImg_def Let_def)

lemma loadIfNotInImageCache_absent:
  "name \<notin> dom (ImageCache m) \<Longrightarrow>
   loadIfNotInImageCache m name filename =
     (snd (GetImg m filename False))\<lparr>ImageCache := (ImageCache m)(name \<mapsto> fst (GetImg m filename False))\<rparr>"
  by (simp add: loadIfNotInImageCache_def GetImg_cache split: prod.split)
     (metis GetImg_cache snd_conv)

lemma loadIfNotInImageCache_dom:
  "name \<in> dom (ImageCache (loadIfNotInImageCache m name filename))"
  by (cases "name \<in> dom (ImageCache m)")
     (simp_all add: loadIfNotInImageCache_present loadIfNotInImageCache_absent)

text \<open>
  C9. \<^verbatim>\<open>loadIfNotInImageCache\<close> is idempotent: when the cache has an entry for the name,
  the call changes nothing (no load happens, the entry is the same object); when it has
  none, the call stores what \<^verbatim>\<open>GetImg\<close> returns under the name; and a second call with
  the same name, whatever the file name, leaves the state of the first.
\<close>

theorem loadIfNotInImageCache_idempotent:
  "(name \<in> dom (ImageCache m) \<longrightarrow> loadIfNotInImageCache m name filename = m)
   \<and> (name \<notin> dom (ImageCache m) \<longrightarrow>
        loadIfNotInImageCache m name filename =
          (snd (GetImg m filename False))\<lparr>ImageCache :=
             (ImageCache m)(name \<mapsto> fst (GetImg m filename False))\<rparr>)
   \<and> loadIfNotInImageCache (loadIfNotInImageCache m name filename) name filename' =
        loadIfNotInImageCache m name filename"
  using loadIfNotInImageCache_present loadIfNotInImageCache_absent loadIfNotInImageCache_dom
  by blast

lemma cache_example_fields:
  "ImageCache cache_example = Map.empty"
  "SpritesFolders cache_example = [''patch'', ''other'']"
  "files cache_example = {''reggiedata/sprites/goomba.png'', ''patch/goomba.png''}"
  "loads cache_example = 0"
  "stdout cache_example = []"
  by (simp_all add: cache_example_def main_def module_imported_def)

lemma GetImg_goomba:
  "GetImg cache_example ''goomba.png'' False =
     (Some (QPixmap ''patch/goomba.png'' 0), cache_example\<lparr>loads := 1\<rparr>)"
  by (simp add: GetImg_def cache_example_fields path_join_def)

text \<open>A first load from the most recent override folder, then the same call again.\<close>

theorem loadIfNotInImageCache_idempotent_witness:
  "ImageCache (loadIfNotInImageCache cache_example ''goomba'' ''goomba.png'') ''goomba''
     = Some (Some (QPixmap ''patch/goomba.png'' 0))
   \<and> loads (loadIfNotInImageCache cache_example ''goomba'' ''goomba.png'') = 1
   \<and> loadIfNotInImageCache (loadIfNotInImageCache cache_example ''goomba'' ''goomba.png'')
         ''goomba'' ''goomba.png''
       = loadIfNotInImageCache cache_example ''goomba'' ''goomba.png''"
proof -
  have a: "''goomba'' \<notin> dom (ImageCache cache_example)"
    by (simp add: cache_example_fields)
  from loadIfNotInImageCache_idempotent [of "''goomba''" cache_example "''goomba.png''" "''goomba.png''"] a
  have l: "loadIfNotInImageCache cache_example ''goomba'' ''goomba.png'' =
          (snd (GetImg cache_example ''goomba.png'' False))\<lparr>ImageCache :=
             (ImageCache cache_example)(''goomba'' \<mapsto> fst (GetImg cache_example ''goomba.png'' False))\<rparr>"
    and i: "loadIfNotInImageCache (loadIfNotInImageCache cache_example ''goomba'' ''goomba.png'')
         ''goomba'' ''goomba.png''
       = loadIfNotInImageCache cache_example ''goomba'' ''goomba.png''"
    by blast+
  have c: "ImageCache (loadIfNotInImageCache cache_example ''goomba'' ''goomba.png'') ''goomba''
     = Some (Some (QPixmap ''patch/goomba.png'' 0))"
    unfolding l by (simp add: GetImg_goomba)
  have n: "loads (loadIfNotInImageCache cache_example ''goomba'' ''goomba.png'') = 1"
    unfolding l by (simp add: GetImg_goomba)
  from c n i show ?thesis by blast
qed

lemma find_path_none:
  "\<forall>folder\<in>set folders. path_join folder imgname \<notin> fs \<Longrightarrow> find_path fs folders imgname path = path"
  by (induction folders) (simp_all add: Let_def)

lemma GetImg_missing:
  assumes "path_join (path_join ''reggiedata'' ''sprites'') imgname \<notin> files m"
    and "\<forall>folder\<in>set (SpritesFolders m). path_join folder imgname \<notin> files m"
  shows "GetImg m imgname flag = (None, m\<lparr>stdout := stdout m @ [warning_text imgname]\<rparr>)"
proof -
  have "find_path (files m) (rev (SpritesFolders m)) imgname
          (path_join (path_join ''reggiedata'' ''sprites'') imgname)
        = path_join (path_join ''reggiedata'' ''sprites'') imgname"
    using assms(2) by (intro find_path_none) simp
  with assms(1) show ?thesis by (simp add: GetImg_def Let_def)
qed

text \<open>
  C10. When no file of the requested name exists in an override folder or in the base
  folder, \<^verbatim>\<open>GetImg\<close> returns \<open>None\<close> and prints the warning;
  \<^verbatim>\<open>loadIfNotInImageCache\<close> stores that \<open>None\<close> under a name that was absent; in every
  later state in which the entry is \<open>None\<close>, whatever files exist by then, a call with
  that name changes nothing; and after \<^verbatim>\<open>main()\<close> the name is absent again.
\<close>

theorem missing_image_cached_as_None:
  assumes "path_join (path_join ''reggiedata'' ''sprites'') filename \<notin> files m"
    and "\<forall>folder\<in>set (SpritesFolders m). path_join folder filename \<notin> files m"
    and "name \<notin> dom (ImageCache m)"
  shows "GetImg m filename flag = (None, m\<lparr>stdout := stdout m @ [warning_text filename]\<rparr>)
    \<and> loadIfNotInImageCache m name filename =
        m\<lparr>stdout := stdout m @ [warning_text filename], ImageCache := (ImageCache m)(name \<mapsto> None)\<rparr>
    \<and> (\<forall>m' filename'. ImageCache m' name = Some None \<longrightarrow> loadIfNotInImageCache m' name filename' = m')
    \<and> (\<forall>m'. ImageCache (main m') name = None)"
proof -
  have g: "GetImg m filename flag = (None, m\<lparr>stdout := stdout m @ [warning_text filename]\<rparr>)" for flag
    using assms(1,2) by (rule GetImg_missing)
  have l: "loadIfNotInImageCache m name filename =
        m\<lparr>stdout := stdout m @ [warning_text filename], ImageCache := (ImageCache m)(name \<mapsto> None)\<rparr>"
    using assms(3) by (simp add: loadIfNotInImageCache_absent g)
  have n: "loadIfNotInImageCache m' name filename' = m'" if "ImageCache m' name = Some None"
    for m' filename'
    using that by (intro loadIfNotInImageCache_present) auto
  have r: "ImageCache (main m') name = None" for m'
    by (simp add: main_def)
  show ?thesis using g l n r by blast
qed

text \<open>
  A missing image, a later call after the file has appeared, and the reset.
\<close>

theorem missing_image_cached_as_None_witness:
  "GetImg cache_example ''koopa.png'' False =
     (None, cache_example\<lparr>stdout := [''[Warning] Could not load sprite image (koopa.png)!'']\<rparr>)
   \<and> ImageCache (loadIfNotInImageCache cache_example ''koopa'' ''koopa.png'') ''koopa'' = Some None
   \<and> loadIfNotInImageCache
        ((loadIfNotInImageCache cache_example ''koopa'' ''koopa.png'')
           \<lparr>files := {''reggiedata/sprites/koopa.png''}\<rparr>) ''koopa'' ''koopa.png''
       = (loadIfNotInImageCache cache_example ''koopa'' ''koopa.png'')
           \<lparr>files := {''reggiedata/sprites/koopa.png''}\<rparr>
   \<and> ImageCache (main (loadIfNotInImageCache cache_example ''koopa'' ''koopa.png'')) ''koopa'' = None"
proof -
  have a: "path_join (path_join ''reggiedata'' ''sprites'') ''koopa.png'' \<notin> files cache_example"
    by (simp add: cache_example_fields path_join_def)
  have b: "\<forall>folder\<in>set (SpritesFolders cache_example). path_join folder ''koopa.png'' \<notin> files cache_example"
    by (simp add: cache_example_fields path_join_def)
  have c: "''koopa'' \<notin> dom (ImageCache cache_example)"
    by (simp add: cache_example_fields)
  note t = missing_image_cached_as_None [OF a b c, of False]
  let ?m1 = "loadIfNotInImageCache cache_example ''koopa'' ''koopa.png''"
  from t have g: "GetImg cache_example ''koopa.png'' False =
     (None, cache_example\<lparr>stdout := stdout cache_example @ [warning_text ''koopa.png'']\<rparr>)"
    by blast
  from t have l: "?m1 =
        cache_example\<lparr>stdout := stdout cache_example @ [warning_text ''koopa.png''],
                      ImageCache := (ImageCache cache_example)(''koopa'' \<mapsto> None)\<rparr>"
    by blast
  from t have n: "ImageCache m' ''koopa'' = Some None \<longrightarrow> loadIfNotInImageCache m' ''koopa'' f' = m'"
    for m' f'
    by blast
  from t have r: "ImageCache (main m') ''koopa'' = None" for m'
    by blast
  have e: "ImageCache ?m1 ''koopa'' = Some None" unfolding l by simp
  have e': "ImageCache (?m1\<lparr>files := {''reggiedata/sprites/koopa.png''}\<rparr>) ''koopa'' = Some None"
    using e by simp
  have g': "GetImg cache_example ''koopa.png'' False =
     (None, cache_example\<lparr>stdout := [''[Warning] Could not load sprite image (koopa.png)!'']\<rparr>)"
    unfolding g by (simp add: cache_example_fields warning_text_def)
  from g' e n [of "?m1\<lparr>files := {''reggiedata/sprites/koopa.png''}\<rparr>" "''koopa.png''"] e' r [of ?m1]
  show ?thesis by blast
qed

subsection \<open>Re-parenting a zone item\<close>

lemma find_zone_none_aux:
  "\<forall>z\<in>set zones. zone_id (store z) \<noteq> ident \<Longrightarrow>
   fold (\<lambda>iterz z. if zone_id (store iterz) = ident then Some iterz else z) zones acc = acc"
  by (induction zones arbitrary: acc) simp_all

lemma find_zone_none:
  "\<forall>z\<in>set zones. zone_id (store z) \<noteq> ident \<Longrightarrow> find_zone store zones ident = None"
  by (simp add: find_zone_def find_zone_none_aux)

text \<open>
  C7. When \<^verbatim>\<open>Area\<close> has zones and none of them has the given id, \<^verbatim>\<open>setZoneID\<close> raises
  \<^verbatim>\<open>ValueError\<close> and both the zone objects and the item are as before the call: the
  item is still in the aux set of its old parent and its parent link is unchanged.
\<close>

theorem setZoneID_unknown_id:
  assumes "Area_zones m = Some zones"
    and "\<forall>z\<in>set zones. zone_id (store z) \<noteq> ident"
  shows "setZoneID m store self ident = Raises ValueError (store, self)"
  using assms by (simp add: setZoneID_def find_zone_none)

text \<open>An item attached to the first of two zones, and an id that no zone has.\<close>

theorem setZoneID_unknown_id_witness:
  "setZoneID ((module_imported {})\<lparr>Area_zones := Some [0, 1]\<rparr>) zone_store_example zone_item_example 3
     = Raises ValueError (zone_store_example, zone_item_example)
   \<and> zi_parent zone_item_example = Some 0
   \<and> zi_ref zone_item_example \<in> zone_aux (zone_store_example 0)"
proof -
  have a: "Area_zones ((module_imported {})\<lparr>Area_zones := Some [0, 1]\<rparr>) = Some [0, 1]"
    by simp
  have b: "\<forall>z\<in>set [0, 1]. zone_id (zone_store_example z) \<noteq> 3"
    by (simp add: zone_store_example_def)
  have c: "zi_parent zone_item_example = Some 0"
    by (simp add: zone_item_example_def)
  have d: "zi_ref zone_item_example \<in> zone_aux (zone_store_example 0)"
    by (simp add: zone_store_example_def zone_item_example_def)
  from setZoneID_unknown_id [OF a b, of zone_item_example] c d show ?thesis
    by blast
qed

subsection \<open>The nearest zone\<close>









subsection \<open>Moving a rect-following image\<close>

lemma move_resize_eq:
  "move_resize self w h =
     self\<lparr>fr_width := (if w < fr_realwidth self then w else fr_realwidth self),
          fr_height := (if h < fr_realheight self then h else fr_realheight self),
          fr_image := (case fr_realimage self of
                         None \<Rightarrow> fr_image self
                       | Some realimage \<Rightarrow>
                           (if w < fr_realwidth self \<or> h < fr_realheight self
                            then Some (Copy realimage 0 0 w h) else Some realimage))\<rparr>"
  unfolding move_resize_def Let_def
  by (cases "w < fr_realwidth self"; cases "h < fr_realheight self"; cases "fr_realimage self")
     simp_all

lemma move_resize_idem: "move_resize (move_resize self w h) w h = move_resize self w h"
  by (simp add: move_resize_eq split: option.split)

lemma move_resize_moved:
  "move_resize (self\<lparr>fr_x := nx, fr_y := ny\<rparr>) w h = (move_resize self w h)\<lparr>fr_x := nx, fr_y := ny\<rparr>"
  "move_resize (self\<lparr>fr_scene := sc\<rparr>) w h = (move_resize self w h)\<lparr>fr_scene := sc\<rparr>"
  by (simp_all add: move_resize_eq split: option.split)

lemma move_resize_keeps:
  "fr_x (move_resize self w h) = fr_x self"
  "fr_y (move_resize self w h) = fr_y self"
  "fr_parent (move_resize self w h) = fr_parent self"
  "fr_scene (move_resize self w h) = fr_scene self"
  "fr_alignment (move_resize self w h) = fr_alignment self"
  "fr_BoundingRect (move_resize self w h) = fr_BoundingRect self"
  by (simp_all add: move_resize_eq)

lemma move_unmoved:
  "computed_pos self x y w h = Inr (fr_x self, fr_y self) \<Longrightarrow> move self x y w h = move_resize self w h"
  by (simp add: move_def computed_pos_def Let_def move_resize_eq)

lemma move_moved:
  assumes n: "move_newpos (move_resize self w h) x y w h = Inr (nx, ny)"
    and d: "\<not> (nx = fr_x self \<and> ny = fr_y self)"
  shows "\<exists>sc. move self x y w h = (move_resize self w h)\<lparr>fr_x := nx, fr_y := ny, fr_scene := sc\<rparr>"
proof -
  let ?s1 = "move_resize self w h"
  let ?s2 = "?s1\<lparr>fr_x := nx, fr_y := ny\<rparr>"
  have same: "?s2 = ?s1\<lparr>fr_x := nx, fr_y := ny, fr_scene := fr_scene ?s1\<rparr>" by simp
  show ?thesis
  proof (cases "fr_scene self")
    case None
    then have "move self x y w h = ?s2"
      using n d by (simp add: move_def Let_def move_resize_keeps)
    with same show ?thesis by metis
  next
    case (Some updates)
    show ?thesis
    proof (cases "fr_parent self")
      case ParentDeleted
      then have "move self x y w h = ?s2"
        using n d Some by (simp add: move_def Let_def move_resize_keeps)
      with same show ?thesis by metis
    next
      case (ParentAt px py)
      then have "move self x y w h =
          ?s2\<lparr>fr_scene := Some (updates @ [QRectF (fr_x self + px) (fr_y self + py) (fr_width ?s2) (fr_height ?s2)])\<rparr>"
        using n d Some by (simp add: move_def Let_def move_resize_keeps)
      then have "move self x y w h =
          ?s1\<lparr>fr_x := nx, fr_y := ny,
               fr_scene := Some (updates @ [QRectF (fr_x self + px) (fr_y self + py) (fr_width ?s2) (fr_height ?s2)])\<rparr>"
        by simp
      then show ?thesis by (rule exI)
    qed
  qed
qed

lemma move_idempotent: "move (move self x y w h) x y w h = move self x y w h"
proof -
  let ?s1 = "move_resize self w h"
  have f: "fr_x ?s1 = fr_x self" "fr_y ?s1 = fr_y self" by (simp_all add: move_resize_eq)
  show ?thesis
  proof (cases "move_newpos ?s1 x y w h")
    case (Inl e)
    then have m: "move self x y w h = ?s1" by (simp add: move_def Let_def)
    show ?thesis unfolding m using Inl by (simp add: move_def Let_def move_resize_idem)
  next
    case (Inr p)
    obtain nx ny where p: "p = (nx, ny)" by (cases p)
    show ?thesis
    proof (cases "nx = fr_x self \<and> ny = fr_y self")
      case True
      then have m: "move self x y w h = ?s1" using Inr p by (simp add: move_def Let_def)
      show ?thesis unfolding m using Inr p True f by (simp add: move_def Let_def move_resize_idem)
    next
      case False
      from move_moved [OF Inr [unfolded p] False]
      obtain sc where m: "move self x y w h = ?s1\<lparr>fr_x := nx, fr_y := ny, fr_scene := sc\<rparr>" ..
      let ?s2 = "?s1\<lparr>fr_x := nx, fr_y := ny, fr_scene := sc\<rparr>"
      have r: "move_resize ?s2 w h = ?s2"
        by (simp add: move_resize_moved move_resize_idem)
      have "move_newpos ?s2 x y w h = move_newpos ?s1 x y w h"
        by (simp add: move_newpos_def split: parent_item.split)
      then have n: "move_newpos ?s2 x y w h = Inr (nx, ny)" using Inr p by simp
      have "move ?s2 x y w h = ?s2"
        by (simp add: move_def [of ?s2] Let_def r n)
      then show ?thesis unfolding m .
    qed
  qed
qed

text \<open>
  C5, as the code has it. When the new position that \<^verbatim>\<open>move(x, y, w, h)\<close> computes is
  the current position of the item, the call sets no position and passes nothing to the
  scene: the item is as before except for its width, height and image, which are
  recomputed from the real size, the retained image and \<open>w\<close> and \<open>h\<close>. For every item,
  repeating the same call changes nothing more.
\<close>

theorem move_same_position:
  "(computed_pos self x y w h = Inr (fr_x self, fr_y self) \<longrightarrow>
      move self x y w h =
        self\<lparr>fr_width := (if w < fr_realwidth self then w else fr_realwidth self),
             fr_height := (if h < fr_realheight self then h else fr_realheight self),
             fr_image := (case fr_realimage self of
                            None \<Rightarrow> fr_image self
                          | Some realimage \<Rightarrow>
                              (if w < fr_realwidth self \<or> h < fr_realheight self
                               then Some (Copy realimage 0 0 w h) else Some realimage))\<rparr>)
   \<and> move (move self x y w h) x y w h = move self x y w h"
  using move_unmoved move_resize_eq move_idempotent by metis

text \<open>
  A call that leaves the item where it is and crops it to the width 5.
\<close>

theorem move_same_position_witness:
  "computed_pos follows_example 3 4 5 20 = Inr (fr_x follows_example, fr_y follows_example)
   \<and> move follows_example 3 4 5 20 =
       follows_example\<lparr>fr_width := 5, fr_height := 10,
         fr_image := Some (Copy (QPixmap ''reggiedata/sprites/vine.png'' 0) 0 0 5 20)\<rparr>
   \<and> fr_scene (move follows_example 3 4 5 20) = Some []
   \<and> move (move follows_example 3 4 5 20) 3 4 5 20 = move follows_example 3 4 5 20"
proof -
  have c: "computed_pos follows_example 3 4 5 20 = Inr (fr_x follows_example, fr_y follows_example)"
    by (simp add: computed_pos_def move_resize_eq move_newpos_def follows_example_def
        AuxiliaryImage_FollowsRect_init_def flagPresent_def AlignTop_def AlignLeft_def)
  from move_same_position [of follows_example 3 4 5 20] c
  have m: "move follows_example 3 4 5 20 =
        follows_example\<lparr>fr_width := (if 5 < fr_realwidth follows_example then 5 else fr_realwidth follows_example),
             fr_height := (if 20 < fr_realheight follows_example then 20 else fr_realheight follows_example),
             fr_image := (case fr_realimage follows_example of
                            None \<Rightarrow> fr_image follows_example
                          | Some realimage \<Rightarrow>
                              (if 5 < fr_realwidth follows_example \<or> 20 < fr_realheight follows_example
                               then Some (Copy realimage 0 0 5 20) else Some realimage))\<rparr>"
    and i: "move (move follows_example 3 4 5 20) 3 4 5 20 = move follows_example 3 4 5 20"
    by blast+
  have m': "move follows_example 3 4 5 20 =
       follows_example\<lparr>fr_width := 5, fr_height := 10,
         fr_image := Some (Copy (QPixmap ''reggiedata/sprites/vine.png'' 0) 0 0 5 20)\<rparr>"
    unfolding m by (simp add: follows_example_def AuxiliaryImage_FollowsRect_init_def)
  have s: "fr_scene (move follows_example 3 4 5 20) = Some []"
    unfolding m' by (simp add: follows_example_def AuxiliaryImage_FollowsRect_init_def)
  from c m' s i show ?thesis by blast
qed

text \<open>
  C5, as stated, fails: the computed position is the current one, yet the width of the
  item changes from 10 to 5 and its image is replaced by a cropped copy.
\<close>

theorem move_unchanged_position_resizes:
  "computed_pos follows_example 3 4 5 20 = Inr (fr_x follows_example, fr_y follows_example)
   \<and> fr_width follows_example = 10
   \<and> fr_width (move follows_example 3 4 5 20) = 5
   \<and> fr_image (move follows_example 3 4 5 20) \<noteq> fr_image follows_example"
  by (simp add: computed_pos_def move_def move_resize_eq move_newpos_def follows_example_def
        AuxiliaryImage_FollowsRect_init_def flagPresent_def AlignTop_def AlignLeft_def)

end
